theory Spec2Isabelle
  imports Main "HOL-Library.Sublist"
begin

section \<open>The package-manager install command of create-t3-app\<close>

text \<open>
  The development embeds \<^verbatim>\<open>src/utils/runPkgManagerInstall.ts\<close>:
  \<^verbatim>\<open>
  export const runPkgManagerInstall = async (opts: {
    packageManager: PackageManager;
    devMode: boolean;
    projectDir: string;
    packages: string[];
  }) => {
    const { packageManager, devMode, projectDir, packages } = opts;

    const installCmd =
      packageManager === "yarn"
        ? `${packageManager} add`
        : `${packageManager} install`;
    const flag = devMode ? "-D" : "";
    const fullCmd = `${installCmd} ${flag} ${packages.join(" ")}`;
    await execa(fullCmd, { cwd: projectDir });
  };
  \<close>
\<close>

subsection \<open>Data model\<close>

text \<open>
  The options object. \<^verbatim>\<open>PackageManager\<close> is a TypeScript union of string
  literals: it constrains callers when the program is compiled and is erased afterwards,
  so the field holds a string when the function runs.
\<close>

record Opts =
  packageManager :: string
  devMode :: bool
  projectDir :: string
  packages :: "string list"

text \<open>
  Modelled from the spec: the type \<^verbatim>\<open>PackageManager\<close> is declared in
  \<^verbatim>\<open>./getUserPkgManager\<close>, which is not among the sources. The spec gives the
  closed set of supported identifiers as "npm", "yarn", "pnpm", "bun".
\<close>

definition supported :: "string list" where
  "supported = [''npm'', ''yarn'', ''pnpm'', ''bun'']"

text \<open>The second argument of \<^verbatim>\<open>execa\<close>, and one call of it.\<close>

record ExecOptions =
  cwd :: string

record ExecCall =
  command :: string
  options :: ExecOptions

text \<open>
  Modelled from the spec: what becomes of the child process. It ran and exited with a
  status and some standard error output, or its executable could not be launched. The
  host that decides this is outside the program, so it is a parameter of the model.
\<close>

datatype ChildOutcome = Exited int string | NotLaunched

type_synonym Launcher = "string \<Rightarrow> ExecOptions \<Rightarrow> ChildOutcome"

text \<open>
  Modelled from the spec: the error taxonomy. The source declares no error type of its
  own; a failure of the function is whatever \<^verbatim>\<open>execa\<close> rejects with.
\<close>

datatype InstallError =
    ConfigurationError
  | ExecutableNotFoundError
  | ProcessExecutionError int string

subsection \<open>Command construction\<close>

text \<open>\<^verbatim>\<open>Array.prototype.join\<close> on an array of strings.\<close>

fun join :: "string \<Rightarrow> string list \<Rightarrow> string" where
  "join sep [] = []"
| "join sep [x] = x"
| "join sep (x # y # ys) = x @ sep @ join sep (y # ys)"

definition installCmd :: "Opts \<Rightarrow> string" where
  "installCmd opts =
     (if packageManager opts = ''yarn''
      then packageManager opts @ '' add''
      else packageManager opts @ '' install'')"

definition flag :: "Opts \<Rightarrow> string" where
  "flag opts = (if devMode opts then ''-D'' else '''')"

definition fullCmd :: "Opts \<Rightarrow> string" where
  "fullCmd opts =
     installCmd opts @ '' '' @ flag opts @ '' '' @ join '' '' (packages opts)"

subsection \<open>Execution\<close>

text \<open>
  Modelled from the spec: \<^verbatim>\<open>execa\<close> is imported from \<^verbatim>\<open>./execAsync\<close>,
  which is not among the sources. Following the spec, it runs the command as a child
  process in the working directory given, resolves on a zero exit status, fails with a
  \<^verbatim>\<open>ProcessExecutionError\<close> carrying the exit code and the captured standard error
  on a non-zero one, and with \<^verbatim>\<open>ExecutableNotFoundError\<close> when the executable
  cannot be launched. The state threaded through is the list of calls made so far.
\<close>

definition execa ::
  "Launcher \<Rightarrow> string \<Rightarrow> ExecOptions \<Rightarrow> ExecCall list \<Rightarrow> (InstallError + unit) \<times> ExecCall list"
where
  "execa launcher cmd eopts calls =
     (let calls' = calls @ [\<lparr>command = cmd, options = eopts\<rparr>] in
      case launcher cmd eopts of
        Exited status err \<Rightarrow>
          if status = 0 then (Inr (), calls')
          else (Inl (ProcessExecutionError status err), calls')
      | NotLaunched \<Rightarrow> (Inl ExecutableNotFoundError, calls'))"

text \<open>
  The function itself: the command is built, \<^verbatim>\<open>execa\<close> is awaited, a rejection
  propagates to the caller, and what \<^verbatim>\<open>execa\<close> resolved with is dropped (the
  body has no \<^verbatim>\<open>return\<close>).
\<close>

definition runPkgManagerInstall ::
  "Launcher \<Rightarrow> Opts \<Rightarrow> ExecCall list \<Rightarrow> (InstallError + unit) \<times> ExecCall list"
where
  "runPkgManagerInstall launcher opts calls =
     (case execa launcher (fullCmd opts) \<lparr>cwd = projectDir opts\<rparr> calls of
        (Inl e, calls') \<Rightarrow> (Inl e, calls')
      | (Inr _, calls') \<Rightarrow> (Inr (), calls'))"

text \<open>A host on which every child runs and exits with the given status, silently.\<close>

definition exits_with :: "int \<Rightarrow> Launcher" where
  "exits_with status cmd eopts = Exited status ''''"

subsection \<open>Tokens of a command line\<close>

text \<open>
  The pieces of a string between single spaces, empty pieces included, as
  \<^verbatim>\<open>split(" ")\<close> gives them: two spaces in a row show as an empty token.
\<close>

fun tokens :: "string \<Rightarrow> string list" where
  "tokens [] = [[]]"
| "tokens (c # cs) =
     (if c = CHR '' '' then [] # tokens cs
      else (case tokens cs of [] \<Rightarrow> [[c]] | t # ts \<Rightarrow> (c # t) # ts))"

fun consecutive_spaces :: "string \<Rightarrow> bool" where
  "consecutive_spaces (a # b # cs) =
     ((a = CHR '' '' \<and> b = CHR '' '') \<or> consecutive_spaces (b # cs))"
| "consecutive_spaces _ = False"

section \<open>Properties\<close>

subsection \<open>Every call reaches the launcher once\<close>

lemma execa_calls:
  "snd (execa launcher cmd eopts calls) = calls @ [\<lparr>command = cmd, options = eopts\<rparr>]"
  by (simp add: execa_def Let_def split: ChildOutcome.split)

lemma run_calls:
  "snd (runPkgManagerInstall launcher opts calls) =
     calls @ [\<lparr>command = fullCmd opts, options = \<lparr>cwd = projectDir opts\<rparr>\<rparr>]"
proof -
  obtain res calls' where e:
    "execa launcher (fullCmd opts) \<lparr>cwd = projectDir opts\<rparr> calls = (res, calls')"
    by (cases "execa launcher (fullCmd opts) \<lparr>cwd = projectDir opts\<rparr> calls")
  have "calls' = calls @ [\<lparr>command = fullCmd opts, options = \<lparr>cwd = projectDir opts\<rparr>\<rparr>]"
    using execa_calls [of launcher "fullCmd opts" "\<lparr>cwd = projectDir opts\<rparr>" calls] e by simp
  then show ?thesis
    by (cases res) (simp_all add: runPkgManagerInstall_def e)
qed

lemma run_result:
  "fst (runPkgManagerInstall launcher opts calls) =
     fst (execa launcher (fullCmd opts) \<lparr>cwd = projectDir opts\<rparr> calls)"
proof -
  obtain res calls' where e:
    "execa launcher (fullCmd opts) \<lparr>cwd = projectDir opts\<rparr> calls = (res, calls')"
    by (cases "execa launcher (fullCmd opts) \<lparr>cwd = projectDir opts\<rparr> calls")
  show ?thesis
    by (cases res) (simp_all add: runPkgManagerInstall_def e)
qed

subsection \<open>Tokens and joins\<close>

lemma tokens_nonempty: "tokens s \<noteq> []"
  by (induction s) (auto split: list.splits)

lemma tokens_append_space: "tokens (a @ CHR '' '' # b) = tokens a @ tokens b"
proof (induction a)
  case Nil
  show ?case by simp
next
  case (Cons c a)
  show ?case
  proof (cases "c = CHR '' ''")
    case True
    with Cons show ?thesis by simp
  next
    case False
    obtain t ts where t: "tokens a = t # ts"
      using tokens_nonempty [of a] by (cases "tokens a") auto
    with False Cons show ?thesis by simp
  qed
qed

lemma tokens_no_space: "CHR '' '' \<notin> set s \<Longrightarrow> tokens s = [s]"
  by (induction s) auto

lemma tokens_join:
  "ps \<noteq> [] \<Longrightarrow> tokens (join '' '' ps) = concat (map tokens ps)"
proof (induction ps)
  case Nil
  then show ?case by simp
next
  case (Cons p ps)
  show ?case
  proof (cases ps)
    case Nil
    then show ?thesis by simp
  next
    case (Cons q qs)
    with Cons.IH have "tokens (join '' '' (q # qs)) = concat (map tokens (q # qs))"
      by simp
    with Cons show ?thesis
      using tokens_append_space [of p "join '' '' (q # qs)"] by simp
  qed
qed

lemma concat_tokens_names:
  "\<forall>p\<in>set ps. CHR '' '' \<notin> set p \<Longrightarrow> concat (map tokens ps) = ps"
  by (induction ps) (simp_all add: tokens_no_space)

lemma tokens_fullCmd:
  "tokens (fullCmd opts) =
     tokens (packageManager opts) @
     [if packageManager opts = ''yarn'' then ''add'' else ''install'', flag opts] @
     tokens (join '' '' (packages opts))"
proof -
  have i: "tokens (installCmd opts) = tokens (packageManager opts) @
      [if packageManager opts = ''yarn'' then ''add'' else ''install'']"
    using tokens_append_space [of "packageManager opts" "''add''"]
      tokens_append_space [of "packageManager opts" "''install''"]
    by (simp add: installCmd_def)
  have f: "tokens (flag opts) = [flag opts]"
    by (simp add: flag_def)
  have "fullCmd opts = installCmd opts @ CHR '' '' # (flag opts @ CHR '' '' # join '' '' (packages opts))"
    by (simp add: fullCmd_def)
  then show ?thesis
    by (simp only: tokens_append_space i f) simp
qed

subsection \<open>Consecutive spaces\<close>

lemma cs_Cons:
  "consecutive_spaces (c # s) \<longleftrightarrow>
     (c = CHR '' '' \<and> s \<noteq> [] \<and> hd s = CHR '' '') \<or> consecutive_spaces s"
  by (cases s) auto

lemma cs_append:
  "consecutive_spaces (xs @ ys) \<longleftrightarrow>
     consecutive_spaces xs \<or> consecutive_spaces ys \<or>
     (xs \<noteq> [] \<and> ys \<noteq> [] \<and> last xs = CHR '' '' \<and> hd ys = CHR '' '')"
proof (induction xs)
  case Nil
  show ?case by simp
next
  case (Cons x xs)
  show ?case
  proof (cases xs)
    case Nil
    then show ?thesis by (auto simp add: cs_Cons)
  next
    case (Cons z zs)
    with Cons.IH show ?thesis by (auto simp add: cs_Cons)
  qed
qed

lemma cs_no_space: "CHR '' '' \<notin> set s \<Longrightarrow> \<not> consecutive_spaces s"
  by (induction s rule: consecutive_spaces.induct) auto

lemma join_shape:
  "\<forall>p\<in>set ps. p \<noteq> [] \<and> CHR '' '' \<notin> set p \<Longrightarrow>
     \<not> consecutive_spaces (join '' '' ps) \<and>
     (join '' '' ps \<noteq> [] \<longrightarrow> hd (join '' '' ps) \<noteq> CHR '' '')"
proof (induction ps)
  case Nil
  show ?case by simp
next
  case (Cons p ps)
  show ?case
  proof (cases ps)
    case Nil
    with Cons.prems show ?thesis
      by (cases p) (auto simp add: cs_no_space)
  next
    case (Cons q qs)
    from Cons.prems have p: "p \<noteq> []" "CHR '' '' \<notin> set p"
      by simp_all
    from Cons.prems Cons.IH have ih: "\<not> consecutive_spaces (join '' '' ps)"
      "join '' '' ps \<noteq> [] \<longrightarrow> hd (join '' '' ps) \<noteq> CHR '' ''"
      by simp_all
    have j: "join '' '' (p # ps) = p @ ('' '' @ join '' '' ps)"
      using Cons by simp
    have l: "last p \<noteq> CHR '' ''"
      using p by (metis last_in_set)
    have h: "hd p \<noteq> CHR '' ''"
      using p by (metis hd_in_set)
    have "\<not> consecutive_spaces ('' '' @ join '' '' ps)"
      using ih by (auto simp add: cs_Cons)
    then have "\<not> consecutive_spaces (p @ ('' '' @ join '' '' ps))"
      using l p by (simp add: cs_append cs_no_space)
    moreover have "hd (p @ ('' '' @ join '' '' ps)) \<noteq> CHR '' ''"
      using h p by simp
    ultimately show ?thesis
      by (simp only: j) simp
  qed
qed

lemma fullCmd_dev_single_spaces:
  assumes d: "devMode opts"
    and m: "CHR '' '' \<notin> set (packageManager opts)"
    and ps: "\<forall>p\<in>set (packages opts). p \<noteq> [] \<and> CHR '' '' \<notin> set p"
  shows "\<not> consecutive_spaces (fullCmd opts)"
proof -
  let ?j = "join '' '' (packages opts)"
  have ml: "packageManager opts \<noteq> [] \<longrightarrow> last (packageManager opts) \<noteq> CHR '' ''"
    using m by (metis last_in_set)
  have i: "\<not> consecutive_spaces (installCmd opts)"
    using m ml by (auto simp add: installCmd_def cs_append cs_no_space)
  have il: "last (installCmd opts) \<noteq> CHR '' ''"
    by (simp add: installCmd_def)
  from join_shape [OF ps] have j: "\<not> consecutive_spaces ?j"
    "?j \<noteq> [] \<longrightarrow> hd ?j \<noteq> CHR '' ''"
    by simp_all
  have t: "\<not> consecutive_spaces ('' -D '' @ ?j)"
    using j by (auto simp add: cs_Cons)
  have "fullCmd opts = installCmd opts @ ('' -D '' @ ?j)"
    using d by (simp add: fullCmd_def flag_def)
  moreover have "\<not> consecutive_spaces (installCmd opts @ ('' -D '' @ ?j))"
    using i il t by (auto simp add: cs_append)
  ultimately show ?thesis by simp
qed

lemma fullCmd_nodev_double_space:
  assumes "\<not> devMode opts"
  shows "consecutive_spaces (fullCmd opts)"
proof -
  have "fullCmd opts = installCmd opts @ (''  '' @ join '' '' (packages opts))"
    using assms by (simp add: fullCmd_def flag_def)
  then show ?thesis
    by (auto simp add: cs_append)
qed

subsection \<open>The base subcommand\<close>

text \<open>
  C1. For the identifier "yarn" the constructed command starts with "yarn add"; for
  every other identifier, and so for every other supported one, it starts with the
  identifier followed by " install".
\<close>

theorem fullCmd_starts_with_verb:
  "(packageManager opts = ''yarn'' \<longrightarrow> prefix ''yarn add'' (fullCmd opts)) \<and>
   (packageManager opts \<noteq> ''yarn'' \<longrightarrow>
      prefix (packageManager opts @ '' install'') (fullCmd opts))"
  by (simp add: fullCmd_def installCmd_def)

theorem fullCmd_starts_with_verb_witness:
  "prefix ''yarn add''
     (fullCmd \<lparr>packageManager = ''yarn'', devMode = True, projectDir = ''/tmp/proj'',
               packages = [''zod'']\<rparr>) \<and>
   ''pnpm'' \<in> set supported \<and> ''pnpm'' \<noteq> ''yarn'' \<and>
   prefix ''pnpm install''
     (fullCmd \<lparr>packageManager = ''pnpm'', devMode = False, projectDir = ''/tmp/proj'',
               packages = [''zod'']\<rparr>)"
  using
    fullCmd_starts_with_verb [of "\<lparr>packageManager = ''yarn'', devMode = True,
      projectDir = ''/tmp/proj'', packages = [''zod'']\<rparr>"]
    fullCmd_starts_with_verb [of "\<lparr>packageManager = ''pnpm'', devMode = False,
      projectDir = ''/tmp/proj'', packages = [''zod'']\<rparr>"]
  by (simp add: supported_def)

subsection \<open>Unsupported identifiers\<close>

text \<open>
  C2, as stated, fails. The function has no check of the identifier and no
  \<^verbatim>\<open>ConfigurationError\<close>: the type \<^verbatim>\<open>PackageManager\<close> keeps other
  identifiers out when the caller is compiled, and nothing does when the function runs.
  With the identifier "deno", which is not supported, the command "deno install  zod" is
  handed to the launcher, and the call succeeds when the child exits with status 0.
\<close>

theorem unsupported_manager_is_launched:
  "''deno'' \<notin> set supported \<and>
   runPkgManagerInstall (exits_with 0)
     \<lparr>packageManager = ''deno'', devMode = False, projectDir = ''/tmp/proj'',
      packages = [''zod'']\<rparr> [] =
     (Inr (), [\<lparr>command = ''deno install  zod'', options = \<lparr>cwd = ''/tmp/proj''\<rparr>\<rparr>])"
  by (simp add: supported_def runPkgManagerInstall_def execa_def exits_with_def
      fullCmd_def installCmd_def flag_def)

text \<open>
  C2, amended. For every request, whatever its packageManager string, the function
  builds the command and calls \<^verbatim>\<open>execa\<close> exactly once with it, in the project
  directory; its result is never a \<^verbatim>\<open>ConfigurationError\<close>.
\<close>

theorem run_launches_any_manager:
  "snd (runPkgManagerInstall launcher opts calls) =
     calls @ [\<lparr>command = fullCmd opts, options = \<lparr>cwd = projectDir opts\<rparr>\<rparr>] \<and>
   fst (runPkgManagerInstall launcher opts calls) \<noteq> Inl ConfigurationError"
proof -
  have "fst (execa launcher (fullCmd opts) \<lparr>cwd = projectDir opts\<rparr> calls) \<noteq>
      Inl ConfigurationError"
    by (simp add: execa_def Let_def split: ChildOutcome.split)
  then show ?thesis
    by (simp add: run_calls run_result)
qed

subsection \<open>Joining the parts\<close>

text \<open>
  C3, as stated, fails. With devMode false the flag is the empty string, and the template
  still puts a space on each side of it: for npm and the package "zod" the command has
  two spaces in a row, and its tokens are "npm", "install", the empty token, "zod".
\<close>

theorem double_space_when_not_dev:
  "consecutive_spaces
     (fullCmd \<lparr>packageManager = ''npm'', devMode = False, projectDir = ''/tmp/proj'',
               packages = [''zod'']\<rparr>) \<and>
   tokens
     (fullCmd \<lparr>packageManager = ''npm'', devMode = False, projectDir = ''/tmp/proj'',
               packages = [''zod'']\<rparr>) = [''npm'', ''install'', '''', ''zod'']"
  by (simp add: fullCmd_def installCmd_def flag_def)

text \<open>
  C3, amended. The command is three strings joined with single spaces: the base
  subcommand, the flag, and the packages joined with single spaces. With devMode false
  the flag is the empty string, an empty placeholder, so the command always has two
  spaces in a row. With devMode true the flag is "-D", and the command has no two
  spaces in a row when the identifier has no space and every package name is non-empty
  and has no space.
\<close>

theorem fullCmd_three_parts:
  "fullCmd opts = join '' '' [installCmd opts, flag opts, join '' '' (packages opts)] \<and>
   (\<not> devMode opts \<longrightarrow> flag opts = '''' \<and> consecutive_spaces (fullCmd opts)) \<and>
   (devMode opts \<and> CHR '' '' \<notin> set (packageManager opts) \<and>
    (\<forall>p\<in>set (packages opts). p \<noteq> [] \<and> CHR '' '' \<notin> set p) \<longrightarrow>
      flag opts = ''-D'' \<and> \<not> consecutive_spaces (fullCmd opts))"
proof (intro conjI impI)
  show "fullCmd opts = join '' '' [installCmd opts, flag opts, join '' '' (packages opts)]"
    by (simp add: fullCmd_def)
next
  assume "\<not> devMode opts"
  then show "flag opts = ''''" by (simp add: flag_def)
next
  assume "\<not> devMode opts"
  then show "consecutive_spaces (fullCmd opts)" by (rule fullCmd_nodev_double_space)
next
  assume "devMode opts \<and> CHR '' '' \<notin> set (packageManager opts) \<and>
    (\<forall>p\<in>set (packages opts). p \<noteq> [] \<and> CHR '' '' \<notin> set p)"
  then show "flag opts = ''-D''" by (simp add: flag_def)
next
  assume "devMode opts \<and> CHR '' '' \<notin> set (packageManager opts) \<and>
    (\<forall>p\<in>set (packages opts). p \<noteq> [] \<and> CHR '' '' \<notin> set p)"
  then show "\<not> consecutive_spaces (fullCmd opts)"
    using fullCmd_dev_single_spaces [of opts] by blast
qed

theorem fullCmd_three_parts_witness:
  "consecutive_spaces
     (fullCmd \<lparr>packageManager = ''npm'', devMode = False, projectDir = ''/tmp/proj'',
               packages = [''zod'']\<rparr>) \<and>
   \<not> consecutive_spaces
     (fullCmd \<lparr>packageManager = ''yarn'', devMode = True, projectDir = ''/tmp/proj'',
               packages = [''typescript'', ''eslint'']\<rparr>)"
  using
    fullCmd_three_parts [of "\<lparr>packageManager = ''npm'', devMode = False,
      projectDir = ''/tmp/proj'', packages = [''zod'']\<rparr>", THEN conjunct2]
    fullCmd_three_parts [of "\<lparr>packageManager = ''yarn'', devMode = True,
      projectDir = ''/tmp/proj'', packages = [''typescript'', ''eslint'']\<rparr>", THEN conjunct2]
  by simp

subsection \<open>The development flag\<close>

text \<open>
  C4, as stated, fails in its second half. No escaping or filtering is applied to the
  package names, so with devMode false a package entry "-D" puts the token "-D" into the
  command: "npm install  -D".
\<close>

theorem dash_D_from_packages:
  "\<not> devMode \<lparr>packageManager = ''npm'', devMode = False, projectDir = ''/tmp/proj'',
               packages = [''-D'']\<rparr> \<and>
   fullCmd \<lparr>packageManager = ''npm'', devMode = False, projectDir = ''/tmp/proj'',
            packages = [''-D'']\<rparr> = ''npm install  -D'' \<and>
   ''-D'' \<in> set (tokens
     (fullCmd \<lparr>packageManager = ''npm'', devMode = False, projectDir = ''/tmp/proj'',
               packages = [''-D'']\<rparr>))"
  by (simp add: fullCmd_def installCmd_def flag_def)

text \<open>
  C4, amended. With devMode true the token "-D" comes immediately after the install or
  add verb. With devMode false the empty token stands in that place, and "-D" is a token
  of the command exactly when it is a token of the identifier or of an entry of packages:
  the function itself emits none.
\<close>

theorem flag_token_position:
  "(devMode opts \<longrightarrow>
      tokens (fullCmd opts) =
        tokens (packageManager opts) @
        [if packageManager opts = ''yarn'' then ''add'' else ''install'', ''-D''] @
        tokens (join '' '' (packages opts))) \<and>
   (\<not> devMode opts \<longrightarrow>
      tokens (fullCmd opts) =
        tokens (packageManager opts) @
        [if packageManager opts = ''yarn'' then ''add'' else ''install'', ''''] @
        tokens (join '' '' (packages opts)) \<and>
      (''-D'' \<in> set (tokens (fullCmd opts)) \<longleftrightarrow>
         ''-D'' \<in> set (tokens (packageManager opts)) \<or>
         ''-D'' \<in> set (tokens (join '' '' (packages opts)))))"
  by (simp add: tokens_fullCmd flag_def)

theorem flag_token_position_witness:
  "tokens (fullCmd \<lparr>packageManager = ''yarn'', devMode = True, projectDir = ''/tmp/proj'',
                    packages = [''typescript'', ''eslint'']\<rparr>) =
     [''yarn'', ''add'', ''-D'', ''typescript'', ''eslint''] \<and>
   ''-D'' \<notin> set (tokens
     (fullCmd \<lparr>packageManager = ''npm'', devMode = False, projectDir = ''/tmp/proj'',
               packages = [''zod'']\<rparr>))"
  using
    flag_token_position [of "\<lparr>packageManager = ''yarn'', devMode = True,
      projectDir = ''/tmp/proj'', packages = [''typescript'', ''eslint'']\<rparr>"]
    flag_token_position [of "\<lparr>packageManager = ''npm'', devMode = False,
      projectDir = ''/tmp/proj'', packages = [''zod'']\<rparr>"]
  by simp

subsection \<open>The packages\<close>

text \<open>
  C5. For a non-empty packages sequence the command ends with a space and the packages
  joined with single spaces; its tokens are those of the base subcommand, the flag, and
  then the tokens of each package entry in the order of the input, nothing added and
  nothing left out. When no entry has a space in it, the tokens after the flag are
  exactly the packages sequence.
\<close>

theorem packages_in_order:
  assumes "packages opts \<noteq> []"
  shows "suffix ('' '' @ join '' '' (packages opts)) (fullCmd opts) \<and>
    tokens (fullCmd opts) =
      tokens (installCmd opts) @ flag opts # concat (map tokens (packages opts)) \<and>
    ((\<forall>p\<in>set (packages opts). CHR '' '' \<notin> set p) \<longrightarrow>
      tokens (fullCmd opts) = tokens (installCmd opts) @ flag opts # packages opts)"
proof -
  have s: "suffix ('' '' @ join '' '' (packages opts)) (fullCmd opts)"
    unfolding fullCmd_def suffix_def by (intro exI [of _ "installCmd opts @ '' '' @ flag opts"]) simp
  have i: "tokens (installCmd opts) = tokens (packageManager opts) @
      [if packageManager opts = ''yarn'' then ''add'' else ''install'']"
    using tokens_append_space [of "packageManager opts" "''add''"]
      tokens_append_space [of "packageManager opts" "''install''"]
    by (simp add: installCmd_def)
  have t: "tokens (fullCmd opts) =
      tokens (installCmd opts) @ flag opts # concat (map tokens (packages opts))"
    using assms by (simp add: tokens_fullCmd i tokens_join)
  show ?thesis
    using s t by (simp add: concat_tokens_names)
qed

theorem packages_in_order_witness:
  "[''typescript'', ''eslint''] \<noteq> [] \<and>
   suffix '' typescript eslint''
     (fullCmd \<lparr>packageManager = ''yarn'', devMode = True, projectDir = ''/tmp/proj'',
               packages = [''typescript'', ''eslint'']\<rparr>) \<and>
   tokens (fullCmd \<lparr>packageManager = ''yarn'', devMode = True, projectDir = ''/tmp/proj'',
                    packages = [''typescript'', ''eslint'']\<rparr>) =
     tokens ''yarn add'' @ ''-D'' # [''typescript'', ''eslint'']"
  using packages_in_order [of "\<lparr>packageManager = ''yarn'', devMode = True,
      projectDir = ''/tmp/proj'', packages = [''typescript'', ''eslint'']\<rparr>"]
  by (simp add: installCmd_def flag_def)

subsection \<open>The two scenarios\<close>

text \<open>
  C6. For npm, devMode false, project directory "/tmp/proj" and the one package "zod",
  the command is exactly "npm install  zod", with two spaces before "zod", and it is
  handed to the launcher once, with "/tmp/proj" as the working directory.
\<close>

theorem scenario_npm_zod:
  "fullCmd \<lparr>packageManager = ''npm'', devMode = False, projectDir = ''/tmp/proj'',
            packages = [''zod'']\<rparr> = ''npm install  zod'' \<and>
   snd (runPkgManagerInstall launcher
          \<lparr>packageManager = ''npm'', devMode = False, projectDir = ''/tmp/proj'',
           packages = [''zod'']\<rparr> calls) =
     calls @ [\<lparr>command = ''npm install  zod'', options = \<lparr>cwd = ''/tmp/proj''\<rparr>\<rparr>]"
  by (simp add: run_calls) (simp add: fullCmd_def installCmd_def flag_def)

text \<open>
  C7. For yarn, devMode true, project directory "/tmp/proj" and the packages
  "typescript", "eslint", the command is exactly "yarn add -D typescript eslint".
\<close>

theorem scenario_yarn_dev:
  "fullCmd \<lparr>packageManager = ''yarn'', devMode = True, projectDir = ''/tmp/proj'',
            packages = [''typescript'', ''eslint'']\<rparr> = ''yarn add -D typescript eslint''"
  by (simp add: fullCmd_def installCmd_def flag_def)

subsection \<open>Exit status\<close>

text \<open>
  C8. When the child exits with status 0 the function resolves with no value; when it
  exits with a non-zero status the function fails with a
  \<^verbatim>\<open>ProcessExecutionError\<close> carrying that status (status 1 gives exit code 1).
\<close>

theorem exit_status_decides_result:
  "(launcher (fullCmd opts) \<lparr>cwd = projectDir opts\<rparr> = Exited 0 err \<longrightarrow>
      fst (runPkgManagerInstall launcher opts calls) = Inr ()) \<and>
   (launcher (fullCmd opts) \<lparr>cwd = projectDir opts\<rparr> = Exited status err \<and> status \<noteq> 0 \<longrightarrow>
      fst (runPkgManagerInstall launcher opts calls) = Inl (ProcessExecutionError status err))"
  by (simp add: run_result execa_def Let_def)

theorem exit_status_decides_result_witness:
  "fst (runPkgManagerInstall (exits_with 0)
     \<lparr>packageManager = ''npm'', devMode = False, projectDir = ''/tmp/proj'',
      packages = [''zod'']\<rparr> []) = Inr () \<and>
   fst (runPkgManagerInstall (exits_with 1)
     \<lparr>packageManager = ''npm'', devMode = False, projectDir = ''/tmp/proj'',
      packages = [''zod'']\<rparr> []) = Inl (ProcessExecutionError 1 '''')"
  using
    exit_status_decides_result [where launcher = "exits_with 0" and err = "''''"
      and status = 0 and calls = "[]" and opts = "\<lparr>packageManager = ''npm'',
      devMode = False, projectDir = ''/tmp/proj'', packages = [''zod'']\<rparr>"]
    exit_status_decides_result [where launcher = "exits_with 1" and err = "''''"
      and status = 1 and calls = "[]" and opts = "\<lparr>packageManager = ''npm'',
      devMode = False, projectDir = ''/tmp/proj'', packages = [''zod'']\<rparr>"]
  by (simp add: exits_with_def)

subsection \<open>No packages\<close>

text \<open>
  C9, as stated, fails in its example. With no packages, npm and devMode false, the
  command is "npm install  ", with two spaces at the end (one before the empty flag and
  one before the empty join), not "npm install ".
\<close>

theorem bare_install_two_spaces:
  "fullCmd \<lparr>packageManager = ''npm'', devMode = False, projectDir = ''/tmp/proj'',
            packages = []\<rparr> = ''npm install  '' \<and>
   fullCmd \<lparr>packageManager = ''npm'', devMode = False, projectDir = ''/tmp/proj'',
            packages = []\<rparr> \<noteq> ''npm install ''"
  by (simp add: fullCmd_def installCmd_def flag_def)

text \<open>
  C9, amended. With an empty packages sequence the function still builds a command, the
  base subcommand followed by a space, the flag and a space (for npm with devMode false,
  "npm install  " with two spaces at the end); it has no package token, the last token
  being empty; and the command is handed to the launcher once, in the project directory:
  there is no short cut for the empty sequence.
\<close>

theorem empty_packages_still_run:
  assumes "packages opts = []"
  shows "fullCmd opts = installCmd opts @ '' '' @ flag opts @ '' '' \<and>
    tokens (fullCmd opts) = tokens (installCmd opts) @ [flag opts, ''''] \<and>
    snd (runPkgManagerInstall launcher opts calls) =
      calls @ [\<lparr>command = installCmd opts @ '' '' @ flag opts @ '' '',
                options = \<lparr>cwd = projectDir opts\<rparr>\<rparr>]"
proof -
  have c: "fullCmd opts = installCmd opts @ '' '' @ flag opts @ '' ''"
    using assms by (simp add: fullCmd_def)
  have i: "tokens (installCmd opts) = tokens (packageManager opts) @
      [if packageManager opts = ''yarn'' then ''add'' else ''install'']"
    using tokens_append_space [of "packageManager opts" "''add''"]
      tokens_append_space [of "packageManager opts" "''install''"]
    by (simp add: installCmd_def)
  have t: "tokens (fullCmd opts) = tokens (installCmd opts) @ [flag opts, '''']"
    using assms by (simp add: tokens_fullCmd i)
  have "snd (runPkgManagerInstall launcher opts calls) =
      calls @ [\<lparr>command = fullCmd opts, options = \<lparr>cwd = projectDir opts\<rparr>\<rparr>]"
    by (rule run_calls)
  with c t show ?thesis by simp
qed

theorem empty_packages_still_run_witness:
  "fullCmd \<lparr>packageManager = ''npm'', devMode = False, projectDir = ''/tmp/proj'',
            packages = []\<rparr> = ''npm install  '' \<and>
   snd (runPkgManagerInstall (exits_with 0)
     \<lparr>packageManager = ''npm'', devMode = False, projectDir = ''/tmp/proj'',
      packages = []\<rparr> []) =
     [\<lparr>command = ''npm install  '', options = \<lparr>cwd = ''/tmp/proj''\<rparr>\<rparr>]"
  using empty_packages_still_run [of "\<lparr>packageManager = ''npm'', devMode = False,
      projectDir = ''/tmp/proj'', packages = []\<rparr>" "exits_with 0" "[]"]
  by (simp add: installCmd_def flag_def)

subsection \<open>The project directory\<close>

text \<open>
  C10. Two requests with the same packageManager, devMode and packages give the same
  command string, whatever their project directories; the project directory of a request
  is the working directory of its call and nothing else.
\<close>

theorem fullCmd_ignores_projectDir:
  assumes "packageManager a = packageManager b" and "devMode a = devMode b"
    and "packages a = packages b"
  shows "fullCmd a = fullCmd b \<and>
    snd (runPkgManagerInstall launcher a calls) =
      calls @ [\<lparr>command = fullCmd b, options = \<lparr>cwd = projectDir a\<rparr>\<rparr>]"
proof -
  have "fullCmd a = fullCmd b"
    using assms by (simp add: fullCmd_def installCmd_def flag_def)
  then show ?thesis
    by (simp add: run_calls)
qed

theorem fullCmd_ignores_projectDir_witness:
  "fullCmd \<lparr>packageManager = ''pnpm'', devMode = True, projectDir = ''/tmp/proj'',
            packages = [''zod'']\<rparr> =
   fullCmd \<lparr>packageManager = ''pnpm'', devMode = True, projectDir = ''/srv/other'',
            packages = [''zod'']\<rparr> \<and>
   snd (runPkgManagerInstall (exits_with 0)
     \<lparr>packageManager = ''pnpm'', devMode = True, projectDir = ''/tmp/proj'',
      packages = [''zod'']\<rparr> []) =
     [\<lparr>command = fullCmd \<lparr>packageManager = ''pnpm'', devMode = True,
                   projectDir = ''/srv/other'', packages = [''zod'']\<rparr>,
       options = \<lparr>cwd = ''/tmp/proj''\<rparr>\<rparr>]"
  using fullCmd_ignores_projectDir [of
      "\<lparr>packageManager = ''pnpm'', devMode = True, projectDir = ''/tmp/proj'',
        packages = [''zod'']\<rparr>"
      "\<lparr>packageManager = ''pnpm'', devMode = True, projectDir = ''/srv/other'',
        packages = [''zod'']\<rparr>" "exits_with 0" "[]"]
  by simp

end
